theory Spec2Isabelle
  imports Main "HOL-Library.Code_Target_Numeral"
begin

section \<open>Configuration record (Config/QEConfig.h)\<close>

text \<open>
  The enumerations of \<^verbatim>\<open>qec::config\<close>. The scoped enumerations share enumerator names
  (\<^verbatim>\<open>Undetected\<close>, \<^verbatim>\<open>None\<close>, \<^verbatim>\<open>MLIR\<close>, ...), so every constructor carries the
  name of its enumeration, as the C++ spells it (\<^verbatim>\<open>EmitAction::MLIR\<close>).
\<close>

datatype QEVerbosity =
    QEVerbosity_Error
  | QEVerbosity_Warn
  | QEVerbosity_Info
  | QEVerbosity_Debug
  | QEVerbosity_VerbosityCnt

datatype EmitAction =
    EmitAction_Undetected
  | EmitAction_None
  | EmitAction_AST
  | EmitAction_ASTPretty
  | EmitAction_MLIR
  | EmitAction_Bytecode
  | EmitAction_WaveMem
  | EmitAction_QEM
  | EmitAction_QEQEM

datatype FileExtension =
    FileExtension_None
  | FileExtension_AST
  | FileExtension_ASTPretty
  | FileExtension_QASM
  | FileExtension_MLIR
  | FileExtension_Bytecode
  | FileExtension_WaveMem
  | FileExtension_QEM
  | FileExtension_QEQEM

datatype InputType =
    InputType_Undetected
  | InputType_QASM
  | InputType_MLIR
  | InputType_Bytecode

text \<open>
  \<^verbatim>\<open>struct QEConfig : mlir::MlirOptMainConfig\<close>. The base class belongs to MLIR; the
  record below holds the members of it that this repository reads or writes
  (\<^verbatim>\<open>CLIConfigBuilder::populateConfig\<close>, \<^verbatim>\<open>shouldEmitBytecode\<close>). The debugger
  configuration and the pass-pipeline callback are opaque MLIR objects that are only
  copied; they are identified by a handle.
\<close>

record MlirOptMainConfig =
  allowUnregisteredDialectsFlag :: bool
  dumpPassPipelineFlag :: bool
  emitBytecodeFlag :: bool
  emitBytecodeVersion :: "int option"
  irdlFileFlag :: string
  enableDebuggerActionHookFlag :: bool
  useExplicitModuleFlag :: bool
  runReproducerFlag :: bool
  showDialectsFlag :: bool
  splitInputFileFlag :: bool
  verifyDiagnosticsFlag :: bool
  verifyPassesFlag :: bool
  verifyRoundtripFlag :: bool
  debugConfig :: nat
  passPipelineCallback :: nat

text \<open>
  The members \<^verbatim>\<open>QEConfig\<close> adds. \<^verbatim>\<open>maxThreads\<close> is a \<^verbatim>\<open>std::optional<unsigned int>\<close>;
  the two places that write it store a value below \<open>2 ^ 32\<close> unchanged, so it is a
  natural number here.
\<close>

record QEConfig = MlirOptMainConfig +
  targetName :: "string option"
  targetConfigPath :: "string option"
  inputType :: InputType
  emitAction :: EmitAction
  verbosityLevel :: QEVerbosity
  addTargetPassesFlag :: bool
  showTargetsFlag :: bool
  showPayloadsFlag :: bool
  showConfigFlag :: bool
  payloadName :: string
  emitPlaintextPayloadFlag :: bool
  includeSourceFlag :: bool
  compileTargetIRFlag :: bool
  bypassPayloadTargetCompilationFlag :: bool
  passPlugins :: "string list"
  dialectPlugins :: "string list"
  maxThreads :: "nat option"

subsection \<open>Accessors\<close>

definition shouldEmitBytecode :: "QEConfig \<Rightarrow> bool" where
  "shouldEmitBytecode c = emitBytecodeFlag c"

definition setInputType :: "InputType \<Rightarrow> QEConfig \<Rightarrow> QEConfig" where
  "setInputType type c = c\<lparr>inputType := type\<rparr>"

definition getInputType :: "QEConfig \<Rightarrow> InputType" where
  "getInputType c = inputType c"

definition setEmitAction :: "EmitAction \<Rightarrow> QEConfig \<Rightarrow> QEConfig" where
  "setEmitAction action c = c\<lparr>emitAction := action\<rparr>"

definition getEmitAction :: "QEConfig \<Rightarrow> EmitAction" where
  "getEmitAction c = emitAction c"


definition getVerbosityLevel :: "QEConfig \<Rightarrow> QEVerbosity" where
  "getVerbosityLevel c = verbosityLevel c"

text \<open>
  \<^verbatim>\<open>setPassPlugins\<close> and \<^verbatim>\<open>getPassPlugins\<close> as the header writes them: both use the
  member \<^verbatim>\<open>dialectPlugins\<close>.
\<close>

definition setPassPlugins :: "string list \<Rightarrow> QEConfig \<Rightarrow> QEConfig" where
  "setPassPlugins plugins c = c\<lparr>dialectPlugins := plugins\<rparr>"

definition getPassPlugins :: "QEConfig \<Rightarrow> string list" where
  "getPassPlugins c = dialectPlugins c"

definition setDialectPlugins :: "string list \<Rightarrow> QEConfig \<Rightarrow> QEConfig" where
  "setDialectPlugins plugins c = c\<lparr>dialectPlugins := plugins\<rparr>"

definition getDialectPlugins :: "QEConfig \<Rightarrow> string list" where
  "getDialectPlugins c = dialectPlugins c"

definition setMaxThreads :: "nat \<Rightarrow> QEConfig \<Rightarrow> QEConfig" where
  "setMaxThreads n c = c\<lparr>maxThreads := Some n\<rparr>"

definition getMaxThreads :: "QEConfig \<Rightarrow> nat option" where
  "getMaxThreads c = maxThreads c"

section \<open>Diagnostics (API/errors.cpp)\<close>

datatype Severity =
    Severity_Info
  | Severity_Warning
  | Severity_Error
  | Severity_Fatal

datatype ErrorCategory =
    OpenQASM3ParseFailure
  | QECompilerError
  | QECompilerNoInputError
  | QECompilerCommunicationFailure
  | QECompilerEOFFailure
  | QECompilerNonZeroStatus
  | QECompilerSequenceTooLong
  | QECompilationFailure
  | QELinkerNotImplemented
  | QELinkSignatureWarning
  | QELinkSignatureError
  | QELinkAddressError
  | QELinkSignatureNotFound
  | QELinkArgumentNotFoundWarning
  | QELinkInvalidPatchTypeError
  | QEControlSystemResourcesExceeded
  | UncategorizedError

record Diagnostic =
  severity :: Severity
  category :: ErrorCategory
  message :: string

text \<open>
  A \<^verbatim>\<open>std::error_code\<close> is either LLVM's \<^verbatim>\<open>inconvertibleErrorCode()\<close> or a code the
  caller supplies. An \<^verbatim>\<open>llvm::Error\<close> is either \<^verbatim>\<open>llvm::Error::success()\<close> or the
  failure \<^verbatim>\<open>llvm::createStringError(ec, msg)\<close> builds.
\<close>

datatype error_code = inconvertibleErrorCode | std_error_code int

datatype llvm_Error = success | StringError error_code string

fun getErrorCategoryAsString :: "ErrorCategory \<Rightarrow> string" where
  "getErrorCategoryAsString OpenQASM3ParseFailure = ''OpenQASM 3 parse error''"
| "getErrorCategoryAsString QECompilerError = ''Unknown compiler error''"
| "getErrorCategoryAsString QECompilerNoInputError =
     ''Error when no input file or string is provided''"
| "getErrorCategoryAsString QECompilerCommunicationFailure =
     ''Error on compilation communication failure''"
| "getErrorCategoryAsString QECompilerEOFFailure = ''EOF Error''"
| "getErrorCategoryAsString QECompilerNonZeroStatus =
     ''Errored because non-zero status is returned''"
| "getErrorCategoryAsString QECompilerSequenceTooLong = ''Input sequence is too long''"
| "getErrorCategoryAsString QECompilationFailure = ''Failure during compilation''"
| "getErrorCategoryAsString QELinkerNotImplemented =
     ''BindArguments not implemented for target''"
| "getErrorCategoryAsString QELinkSignatureWarning =
     ''Signature file format is invalid but may be processed''"
| "getErrorCategoryAsString QELinkSignatureError = ''Signature file format is invalid''"
| "getErrorCategoryAsString QELinkAddressError = ''Signature address is invalid''"
| "getErrorCategoryAsString QELinkSignatureNotFound = ''Signature file not found''"
| "getErrorCategoryAsString QELinkArgumentNotFoundWarning =
     ''Parameter in signature not found in arguments''"
| "getErrorCategoryAsString QELinkInvalidPatchTypeError = ''Invalid patch point type''"
| "getErrorCategoryAsString QEControlSystemResourcesExceeded =
     ''Control system resources exceeded''"
| "getErrorCategoryAsString UncategorizedError = ''Compilation failure''"

fun getSeverityAsString :: "Severity \<Rightarrow> string" where
  "getSeverityAsString Severity_Info = ''Info''"
| "getSeverityAsString Severity_Warning = ''Warning''"
| "getSeverityAsString Severity_Error = ''Error''"
| "getSeverityAsString Severity_Fatal = ''Fatal''"

definition toString :: "Diagnostic \<Rightarrow> string" where
  "toString d =
     getSeverityAsString (severity d) @ '': '' @ getErrorCategoryAsString (category d)
       @ [CHR 0x0A] @ message d"

text \<open>
  \<^verbatim>\<open>emitDiagnostic(onDiagnostic, diag, ec)\<close>. The callback is a
  \<^verbatim>\<open>std::function<void(const Diagnostic &)>\<close>: whatever it does, it does to the
  caller's world \<open>'w\<close>, so it is a function from the diagnostic and the world before the
  call to the world after it.
\<close>

definition emitDiagnostic ::
  "(Diagnostic \<Rightarrow> 'w \<Rightarrow> 'w) option \<Rightarrow> Diagnostic \<Rightarrow> error_code \<Rightarrow> 'w \<Rightarrow> llvm_Error \<times> 'w" where
  "emitDiagnostic onDiagnostic diag ec w =
     (let w' = (case onDiagnostic of
                  Some diagnosticCallback \<Rightarrow> diagnosticCallback diag w
                | None \<Rightarrow> w)
      in (StringError ec (toString diag), w'))"

text \<open>The overload that builds the diagnostic from its three parts.\<close>

definition emitDiagnostic_parts ::
  "(Diagnostic \<Rightarrow> 'w \<Rightarrow> 'w) option \<Rightarrow> Severity \<Rightarrow> ErrorCategory \<Rightarrow> string \<Rightarrow> error_code
     \<Rightarrow> 'w \<Rightarrow> llvm_Error \<times> 'w" where
  "emitDiagnostic_parts onDiagnostic sev cat msg ec w =
     emitDiagnostic onDiagnostic \<lparr>severity = sev, category = cat, message = msg\<rparr> ec w"

section \<open>Command-line options (Config/CLIConfigBuilder.cpp)\<close>

text \<open>
  \<^verbatim>\<open>struct QEConfigCLOptions : public QEConfig\<close> has the data members of \<^verbatim>\<open>QEConfig\<close>;
  its state after the command line was parsed is a \<^verbatim>\<open>QEConfig\<close> value. The options
  declared with \<^verbatim>\<open>llvm::cl::location\<close> write the member directly; the options below have a
  callback, which the option parser runs with each value given on the command line.
\<close>

definition targetConfigPath_callback :: "string \<Rightarrow> QEConfig \<Rightarrow> QEConfig" where
  "targetConfigPath_callback config st =
     (if config \<noteq> [] then st\<lparr>targetConfigPath := Some config\<rparr> else st)"

definition targetName_callback :: "string \<Rightarrow> QEConfig \<Rightarrow> QEConfig" where
  "targetName_callback target st =
     (if target \<noteq> [] then st\<lparr>targetName := Some target\<rparr> else st)"

text \<open>
  \<^verbatim>\<open>--max-threads\<close> is an \<^verbatim>\<open>llvm::cl::opt<int>\<close>. A positive \<^verbatim>\<open>int\<close> converts to
  \<^verbatim>\<open>unsigned int\<close> without change.
\<close>

definition maxThreads_callback :: "int \<Rightarrow> QEConfig \<Rightarrow> QEConfig" where
  "maxThreads_callback cliMaxThreads st =
     (if cliMaxThreads > 0 then st\<lparr>maxThreads := Some (nat cliMaxThreads)\<rparr> else st)"

text \<open>
  The plugin options record the path and hand it to the loader at once; a failed load
  prints a line on \<^verbatim>\<open>llvm::errs()\<close> and nothing more. The loader is the dynamic-library
  collaborator (\<open>True\<close>: the load succeeded). The result is the text printed and the
  new state.
\<close>

definition passPlugins_callback ::
  "(string \<Rightarrow> bool) \<Rightarrow> string \<Rightarrow> QEConfig \<Rightarrow> string list \<times> QEConfig" where
  "passPlugins_callback loadPassPlugin pluginPath st =
     (let st' = st\<lparr>passPlugins := passPlugins st @ [pluginPath]\<rparr>
      in if \<not> loadPassPlugin pluginPath
         then ([''Failed to load passes from '' @ [CHR 0x27] @ pluginPath @ [CHR 0x27]
                 @ ''. Request ignored.'' @ [CHR 0x0A]], st')
         else ([], st'))"

definition dialectPlugins_callback ::
  "(string \<Rightarrow> bool) \<Rightarrow> string \<Rightarrow> QEConfig \<Rightarrow> string list \<times> QEConfig" where
  "dialectPlugins_callback loadDialectPlugin pluginPath st =
     (let st' = st\<lparr>dialectPlugins := dialectPlugins st @ [pluginPath]\<rparr>
      in if \<not> loadDialectPlugin pluginPath
         then ([''Failed to load dialect from '' @ [CHR 0x27] @ pluginPath @ [CHR 0x27]
                 @ ''. Request ignored.'' @ [CHR 0x0A]], st')
         else ([], st'))"

text \<open>
  \<^verbatim>\<open>computeInputType\<close>. The functions \<^verbatim>\<open>getExtension\<close> and
  \<^verbatim>\<open>fileExtensionToInputType\<close> are declared in Config/QEConfig.h; their definitions
  are outside the files this theory covers, so they are parameters.
\<close>

definition computeInputType ::
  "(string \<Rightarrow> FileExtension) \<Rightarrow> (FileExtension \<Rightarrow> InputType) \<Rightarrow> string \<Rightarrow> QEConfig
     \<Rightarrow> llvm_Error \<times> QEConfig" where
  "computeInputType getExtension fileExtensionToInputType inputFilename st =
     (if getInputType st = InputType_Undetected then
        (let st' =
           (if shouldEmitBytecode st then setInputType InputType_Bytecode st
            else setInputType (fileExtensionToInputType (getExtension inputFilename)) st)
         in if inputFilename \<noteq> ''-'' \<and> getInputType st' = InputType_Undetected
            then (StringError inconvertibleErrorCode
                    (''Unable to autodetect file extension type! Please specify the ''
                       @ ''input type with -X''), st')
            else (success, st'))
      else (success, st))"

text \<open>
  \<^verbatim>\<open>computeOutputType\<close>, with \<^verbatim>\<open>fileExtensionToAction\<close> a parameter as well. The
  result is the error value, the text printed on \<^verbatim>\<open>llvm::errs()\<close> and the new state.
\<close>

definition computeOutputType ::
  "(string \<Rightarrow> FileExtension) \<Rightarrow> (FileExtension \<Rightarrow> EmitAction) \<Rightarrow> string \<Rightarrow> QEConfig
     \<Rightarrow> llvm_Error \<times> string list \<times> QEConfig" where
  "computeOutputType getExtension fileExtensionToAction outputFilename st =
     (if outputFilename \<noteq> ''-'' then
        (let extensionAction = fileExtensionToAction (getExtension outputFilename)
         in if extensionAction = EmitAction_Undetected
               \<and> emitAction st = EmitAction_Undetected
            then (success,
                  [''Cannot determine the file extension of the specified output file ''
                     @ outputFilename @ '' defaulting to dumping MLIR'' @ [CHR 0x0A]],
                  setEmitAction EmitAction_MLIR st)
            else if emitAction st = EmitAction_Undetected
            then (success, [], setEmitAction extensionAction st)
            else if extensionAction \<noteq> getEmitAction st
            then (success,
                  [''Warning! The output type in the file extension doesn't ''
                     @ ''match the output type specified by --emit!'' @ [CHR 0x0A]],
                  st)
            else (success, [], st))
      else if emitAction st = EmitAction_Undetected
      then (success, [], setEmitAction EmitAction_MLIR st)
      else (success, [], st))"

text \<open>
  \<^verbatim>\<open>CLIConfigBuilder::populateConfig(QEConfig &config)\<close>: \<open>cl\<close> is the state of the
  \<^verbatim>\<open>clOptionsConfig\<close> singleton. The function has no failing path.
\<close>

definition CLIConfigBuilder_populateConfig :: "QEConfig \<Rightarrow> QEConfig \<Rightarrow> llvm_Error \<times> QEConfig" where
  "CLIConfigBuilder_populateConfig cl config =
     (let config = config\<lparr>debugConfig := debugConfig cl\<rparr>;
          config = config\<lparr>passPipelineCallback := passPipelineCallback cl\<rparr>;
          config = (if verbosityLevel cl \<noteq> QEVerbosity_VerbosityCnt
                    then config\<lparr>verbosityLevel := verbosityLevel cl\<rparr> else config);
          config = (if targetName cl \<noteq> None
                    then config\<lparr>targetName := targetName cl\<rparr> else config);
          config = (if targetConfigPath cl \<noteq> None
                    then config\<lparr>targetConfigPath := targetConfigPath cl\<rparr> else config);
          config = config\<lparr>addTargetPassesFlag := addTargetPassesFlag cl\<rparr>;
          config = config\<lparr>showTargetsFlag := showTargetsFlag cl\<rparr>;
          config = config\<lparr>showPayloadsFlag := showPayloadsFlag cl\<rparr>;
          config = config\<lparr>showConfigFlag := showConfigFlag cl\<rparr>;
          config = config\<lparr>emitPlaintextPayloadFlag := emitPlaintextPayloadFlag cl\<rparr>;
          config = config\<lparr>includeSourceFlag := includeSourceFlag cl\<rparr>;
          config = config\<lparr>compileTargetIRFlag := compileTargetIRFlag cl\<rparr>;
          config = config\<lparr>bypassPayloadTargetCompilationFlag :=
                            bypassPayloadTargetCompilationFlag cl\<rparr>;
          config = config\<lparr>passPlugins := passPlugins config @ passPlugins cl\<rparr>;
          config = config\<lparr>dialectPlugins := dialectPlugins config @ dialectPlugins cl\<rparr>;
          config = (if maxThreads cl \<noteq> None
                    then config\<lparr>maxThreads := maxThreads cl\<rparr> else config);
          config = config\<lparr>allowUnregisteredDialectsFlag := allowUnregisteredDialectsFlag cl\<rparr>;
          config = config\<lparr>dumpPassPipelineFlag := dumpPassPipelineFlag cl\<rparr>;
          config = (if emitBytecodeVersion cl \<noteq> None
                    then config\<lparr>emitBytecodeVersion := emitBytecodeVersion cl\<rparr> else config);
          config = config\<lparr>irdlFileFlag := irdlFileFlag cl\<rparr>;
          config = config\<lparr>enableDebuggerActionHookFlag := enableDebuggerActionHookFlag cl\<rparr>;
          config = config\<lparr>useExplicitModuleFlag := useExplicitModuleFlag cl\<rparr>;
          config = config\<lparr>runReproducerFlag := runReproducerFlag cl\<rparr>;
          config = config\<lparr>showDialectsFlag := showDialectsFlag cl\<rparr>;
          config = config\<lparr>verifyDiagnosticsFlag := verifyDiagnosticsFlag cl\<rparr>;
          config = config\<lparr>verifyPassesFlag := verifyPassesFlag cl\<rparr>;
          config = config\<lparr>verifyRoundtripFlag := verifyRoundtripFlag cl\<rparr>;
          config = config\<lparr>splitInputFileFlag := splitInputFileFlag cl\<rparr>
      in (success, config))"

text \<open>
  The overload with the file names. It changes the singleton too
  (\<^verbatim>\<open>computeInputType\<close> and \<^verbatim>\<open>computeOutputType\<close> run on it), so the result is the
  error value, the text printed, the singleton and the configuration.
\<close>

definition CLIConfigBuilder_populateConfig_files ::
  "(string \<Rightarrow> FileExtension) \<Rightarrow> (FileExtension \<Rightarrow> InputType) \<Rightarrow> (FileExtension \<Rightarrow> EmitAction)
     \<Rightarrow> QEConfig \<Rightarrow> QEConfig \<Rightarrow> string \<Rightarrow> string
     \<Rightarrow> llvm_Error \<times> string list \<times> QEConfig \<times> QEConfig" where
  "CLIConfigBuilder_populateConfig_files getExtension fileExtensionToInputType
       fileExtensionToAction cl config inputFilename outputFilename =
     (case CLIConfigBuilder_populateConfig cl config of (err, config) \<Rightarrow>
        if err \<noteq> success then (err, [], cl, config) else
      case computeInputType getExtension fileExtensionToInputType inputFilename cl of
        (err, cl) \<Rightarrow>
        if err \<noteq> success then (err, [], cl, config) else
      let config = config\<lparr>inputType := inputType cl\<rparr> in
      case computeOutputType getExtension fileExtensionToAction outputFilename cl of
        (err, out, cl) \<Rightarrow>
        if err \<noteq> success then (err, out, cl, config) else
      (success, out, cl, config\<lparr>emitAction := emitAction cl\<rparr>))"

section \<open>Environment variables (lib/Config/EnvVarConfig.cpp)\<close>

text \<open>
  The process environment is a map from names to values (\<^verbatim>\<open>std::getenv\<close> returns a null
  pointer for a name that is not set).

  \<^verbatim>\<open>QEC_MAX_THREADS\<close> is read with \<^verbatim>\<open>llvm::StringRef::consumeInteger<unsigned int>(0, n)\<close>,
  a routine of the LLVM support library (StringRef.h, StringRef.cpp). With radix 0 it
  picks the radix from a prefix, reads the longest run of digits of that radix into an
  \<^verbatim>\<open>unsigned long long\<close>, and reports failure when no digit was read, when the
  accumulator wrapped, or when the value does not fit \<^verbatim>\<open>unsigned int\<close>. It leaves the
  unread part in the string it was called on. Failure is \<open>True\<close>, as in LLVM.
\<close>

definition isDigit :: "char \<Rightarrow> bool" where
  "isDigit c = (48 \<le> (of_char c :: nat) \<and> (of_char c :: nat) \<le> 57)"

fun GetAutoSenseRadix :: "string \<Rightarrow> nat \<times> string" where
  "GetAutoSenseRadix Str =
     (if Str = [] then (10, Str)
      else if take 2 Str = ''0x'' \<or> take 2 Str = ''0X'' then (16, drop 2 Str)
      else if take 2 Str = ''0b'' \<or> take 2 Str = ''0B'' then (2, drop 2 Str)
      else if take 2 Str = ''0o'' then (8, drop 2 Str)
      else if hd Str = CHR ''0'' \<and> length Str > 1 \<and> isDigit (Str ! 1) then (8, drop 1 Str)
      else (10, Str))"

definition CharVal :: "char \<Rightarrow> nat option" where
  "CharVal c =
     (let n = (of_char c :: nat) in
      if 48 \<le> n \<and> n \<le> 57 then Some (n - 48)
      else if 97 \<le> n \<and> n \<le> 122 then Some (n - 97 + 10)
      else if 65 \<le> n \<and> n \<le> 90 then Some (n - 65 + 10)
      else None)"

text \<open>
  The digit loop of \<^verbatim>\<open>consumeUnsignedInteger\<close>: \<open>None\<close> when the 64-bit accumulator
  wrapped, otherwise the unread rest and the value.
\<close>

fun consumeDigits :: "nat \<Rightarrow> string \<Rightarrow> nat \<Rightarrow> (string \<times> nat) option" where
  "consumeDigits Radix [] Result = Some ([], Result)"
| "consumeDigits Radix (c # Str2) Result =
     (case CharVal c of
        None \<Rightarrow> Some (c # Str2, Result)
      | Some v \<Rightarrow>
          if v \<ge> Radix then Some (c # Str2, Result)
          else (let PrevResult = Result;
                    Result = (Result * Radix + v) mod 2 ^ 64
                in if Result div Radix < PrevResult then None
                   else consumeDigits Radix Str2 Result))"

text \<open>The result: failed or not, the string as the call leaves it, the value read.\<close>

definition consumeUnsignedInteger :: "string \<Rightarrow> bool \<times> string \<times> nat" where
  "consumeUnsignedInteger Str0 =
     (case GetAutoSenseRadix Str0 of (Radix, Str) \<Rightarrow>
        if Str = [] then (True, Str, 0)
        else (case consumeDigits Radix Str 0 of
                None \<Rightarrow> (True, Str, 0)
              | Some (Str2, Result) \<Rightarrow>
                  if length Str = length Str2 then (True, Str, 0)
                  else (False, Str2, Result)))"

definition consumeInteger :: "string \<Rightarrow> bool \<times> string \<times> nat" where
  "consumeInteger Str0 =
     (case consumeUnsignedInteger Str0 of (failed, Str, ULLVal) \<Rightarrow>
        if failed \<or> ULLVal mod 2 ^ 32 \<noteq> ULLVal then (True, Str, 0)
        else (False, Str, ULLVal))"






section \<open>Resource directories (QEC.cpp)\<close>

text \<open>
  The function of the anonymous namespace that reads \<^verbatim>\<open>QEC_RESOURCES\<close>. The macro
  \<^verbatim>\<open>QEC_RESOURCES_INSTALL_PREFIX\<close> comes from the build, so it is a parameter.
\<close>

definition anon_getResourcesDir :: "string \<Rightarrow> (string \<rightharpoonup> string) \<Rightarrow> string" where
  "anon_getResourcesDir QEC_RESOURCES_INSTALL_PREFIX getenv =
     (case getenv ''QEC_RESOURCES'' of
        Some env \<Rightarrow> env
      | None \<Rightarrow> QEC_RESOURCES_INSTALL_PREFIX)"

text \<open>
  \<^verbatim>\<open>qec::getResourcesDir\<close> keeps its answer in a function-local \<^verbatim>\<open>static\<close>, which is
  initialised by the first call: \<open>None\<close> is the static before that call. The result is
  the directory and the static afterwards.
\<close>

definition getResourcesDir ::
  "string \<Rightarrow> (string \<rightharpoonup> string) \<Rightarrow> string option \<Rightarrow> string \<times> string option" where
  "getResourcesDir QEC_RESOURCES_INSTALL_PREFIX getenv static =
     (case static of
        Some resourcesDir \<Rightarrow> (resourcesDir, static)
      | None \<Rightarrow>
          (let resourcesDir = anon_getResourcesDir QEC_RESOURCES_INSTALL_PREFIX getenv
           in (resourcesDir, Some resourcesDir)))"

text \<open>
  \<^verbatim>\<open>llvm::sys::path::append\<close> of the LLVM support library, in its POSIX style, for one
  component: a path that ends in a separator takes the component without its leading
  separators; otherwise a separator is put between the two unless the path is empty or
  the component starts with one.
\<close>

definition path_append1 :: "string \<Rightarrow> string \<Rightarrow> string" where
  "path_append1 path component =
     (if path \<noteq> [] \<and> last path = CHR ''/''
      then path @ dropWhile (\<lambda>c. c = CHR ''/'') component
      else if (component \<noteq> [] \<and> hd component = CHR ''/'') \<or> path = []
      then path @ component
      else path @ ''/'' @ component)"

definition path_append :: "string \<Rightarrow> string list \<Rightarrow> string" where
  "path_append path components = foldl path_append1 path components"

text \<open>
  \<^verbatim>\<open>qec::getTargetResourcesDir\<close>. \<^verbatim>\<open>Target::getResourcePath\<close> is declared in a header
  outside the files this theory covers, so it is a parameter.
\<close>

definition getTargetResourcesDir ::
  "string \<Rightarrow> (string \<rightharpoonup> string) \<Rightarrow> ('target \<Rightarrow> string) \<Rightarrow> 'target \<Rightarrow> string option
     \<Rightarrow> string \<times> string option" where
  "getTargetResourcesDir QEC_RESOURCES_INSTALL_PREFIX getenv getResourcePath target static =
     (case getResourcesDir QEC_RESOURCES_INSTALL_PREFIX getenv static of
        (path, static') \<Rightarrow> (path_append path [''targets'', getResourcePath target], static'))"

section \<open>Targets bound to contexts (HAL/TargetSystemInfo.h)\<close>

text \<open>
  Modelled from the spec: \<^verbatim>\<open>TargetSystemInfo::createTarget\<close> and
  \<^verbatim>\<open>TargetSystemInfo::getTarget\<close> are declared in HAL/TargetSystemInfo.h, and the file
  that defines them is outside the files this theory covers. The model follows sections
  4.4 and 4.5 of the specification and the comments of the two declarations.

  A context is an \<^verbatim>\<open>mlir::MLIRContext *\<close>; \<open>None\<close> is the null pointer, the "no context"
  identity. The descriptor's store binds at most one instance to a context.
  \<^verbatim>\<open>createTarget\<close> runs the factory and, when it gave an instance, binds it under the
  context in place of what was bound there; \<^verbatim>\<open>getTarget\<close> looks for the context, then
  for the null pointer, then fails.
\<close>

definition createTarget ::
  "('cfg option \<Rightarrow> llvm_Error + 'inst) \<Rightarrow> 'ctx option \<Rightarrow> 'cfg option
     \<Rightarrow> ('ctx option \<rightharpoonup> 'inst) \<Rightarrow> (llvm_Error + 'inst) \<times> ('ctx option \<rightharpoonup> 'inst)" where
  "createTarget factory context configuration managedTargets =
     (case factory configuration of
        Inl err \<Rightarrow> (Inl err, managedTargets)
      | Inr target \<Rightarrow> (Inr target, managedTargets(context \<mapsto> target)))"

definition getTarget :: "'ctx option \<Rightarrow> ('ctx option \<rightharpoonup> 'inst) \<Rightarrow> llvm_Error + 'inst" where
  "getTarget context managedTargets =
     (case managedTargets context of
        Some target \<Rightarrow> Inr target
      | None \<Rightarrow>
          (case managedTargets None of
             Some target \<Rightarrow> Inr target
           | None \<Rightarrow> Inl (StringError inconvertibleErrorCode
                            ''no binding for this context'')))"

section \<open>Initial values\<close>

text \<open>
  A default-constructed \<^verbatim>\<open>QEConfig\<close>: the base class as MLIR constructs it (a parameter)
  and the member initialisers of Config/QEConfig.h.
\<close>

definition QEConfig_default :: "MlirOptMainConfig \<Rightarrow> QEConfig" where
  "QEConfig_default base =
     MlirOptMainConfig.extend base
       (QEConfig.fields None None InputType_Undetected EmitAction_Undetected
          QEVerbosity_Warn True False False False ''-'' False False False False [] [] None)"

text \<open>
  The singleton after the constructor of \<^verbatim>\<open>QEConfigCLOptions\<close> ran and before any
  argument was parsed: every option with \<^verbatim>\<open>llvm::cl::location\<close> and \<^verbatim>\<open>llvm::cl::init\<close>
  has written its initial value to its member. \<^verbatim>\<open>VERIFY_PASSES_DEFAULT\<close> depends on the
  build (\<^verbatim>\<open>NOVERIFY\<close>).
\<close>

definition QEConfigCLOptions_init :: "MlirOptMainConfig \<Rightarrow> bool \<Rightarrow> QEConfig" where
  "QEConfigCLOptions_init base VERIFY_PASSES_DEFAULT =
     (QEConfig_default base)
       \<lparr>addTargetPassesFlag := True,
        showTargetsFlag := False,
        showPayloadsFlag := False,
        showConfigFlag := False,
        emitPlaintextPayloadFlag := False,
        includeSourceFlag := False,
        compileTargetIRFlag := False,
        bypassPayloadTargetCompilationFlag := False,
        allowUnregisteredDialectsFlag := False,
        dumpPassPipelineFlag := False,
        emitBytecodeVersion := None,
        irdlFileFlag := [],
        enableDebuggerActionHookFlag := False,
        useExplicitModuleFlag := False,
        runReproducerFlag := False,
        showDialectsFlag := False,
        splitInputFileFlag := False,
        verifyDiagnosticsFlag := False,
        verifyPassesFlag := VERIFY_PASSES_DEFAULT,
        verifyRoundtripFlag := False,
        verbosityLevel := QEVerbosity_VerbosityCnt\<rparr>"

section \<open>Concrete inputs\<close>

text \<open>
  The values MLIR gives the members of \<^verbatim>\<open>MlirOptMainConfig\<close>, for the places below that
  need a concrete record.
\<close>

definition MlirOptMainConfig_default :: MlirOptMainConfig where
  "MlirOptMainConfig_default =
     \<lparr>allowUnregisteredDialectsFlag = False,
      dumpPassPipelineFlag = False,
      emitBytecodeFlag = False,
      emitBytecodeVersion = None,
      irdlFileFlag = [],
      enableDebuggerActionHookFlag = False,
      useExplicitModuleFlag = False,
      runReproducerFlag = False,
      showDialectsFlag = False,
      splitInputFileFlag = False,
      verifyDiagnosticsFlag = False,
      verifyPassesFlag = True,
      verifyRoundtripFlag = False,
      debugConfig = 0,
      passPipelineCallback = 0\<rparr>"

text \<open>
  Modelled from the spec: \<^verbatim>\<open>getExtension\<close>, \<^verbatim>\<open>fileExtensionToInputType\<close> and
  \<^verbatim>\<open>fileExtensionToAction\<close> are defined in a file outside the ones this theory
  covers. Section 8 of the specification names these pairs: \<^verbatim>\<open>.qasm\<close> is the source
  language, \<^verbatim>\<open>.mlir\<close> the textual intermediate representation, \<^verbatim>\<open>.bc\<close> bytecode, and
  \<^verbatim>\<open>.qem\<close> the quantum executable module; anything else is unrecognised. These three
  functions are used for concrete inputs only; the theorems hold for every table.
\<close>

definition getExtension_spec :: "string \<Rightarrow> FileExtension" where
  "getExtension_spec inStr =
     (let ext = (if CHR ''.'' \<in> set inStr
                 then rev (takeWhile (\<lambda>c. c \<noteq> CHR ''.'') (rev inStr)) else [])
      in if ext = ''qasm'' then FileExtension_QASM
         else if ext = ''mlir'' then FileExtension_MLIR
         else if ext = ''bc'' then FileExtension_Bytecode
         else if ext = ''qem'' then FileExtension_QEM
         else FileExtension_None)"

fun fileExtensionToInputType_spec :: "FileExtension \<Rightarrow> InputType" where
  "fileExtensionToInputType_spec FileExtension_QASM = InputType_QASM"
| "fileExtensionToInputType_spec FileExtension_MLIR = InputType_MLIR"
| "fileExtensionToInputType_spec FileExtension_Bytecode = InputType_Bytecode"
| "fileExtensionToInputType_spec _ = InputType_Undetected"

fun fileExtensionToAction_spec :: "FileExtension \<Rightarrow> EmitAction" where
  "fileExtensionToAction_spec FileExtension_MLIR = EmitAction_MLIR"
| "fileExtensionToAction_spec FileExtension_Bytecode = EmitAction_Bytecode"
| "fileExtensionToAction_spec FileExtension_QEM = EmitAction_QEM"
| "fileExtensionToAction_spec _ = EmitAction_Undetected"




definition cl_example :: QEConfig where
  "cl_example =
     targetName_callback ''clitarget'' (QEConfigCLOptions_init MlirOptMainConfig_default True)"

section \<open>Notions used to state the theorems\<close>


section \<open>Theorems\<close>

subsection \<open>Reading an unsigned integer\<close>






text \<open>A value that starts with digits is read up to the first other character.\<close>

lemma consumeInteger_reads_prefix: "consumeInteger ''12abc'' = (False, ''abc'', 12)"
  by (simp add: consumeInteger_def consumeUnsignedInteger_def CharVal_def isDigit_def)







subsection \<open>The fields the command-line stage writes\<close>

lemma CLI_populate_success: "fst (CLIConfigBuilder_populateConfig cl config) = success"
  by (simp add: CLIConfigBuilder_populateConfig_def Let_def)

lemma CLI_populate_optional:
  "targetName (snd (CLIConfigBuilder_populateConfig cl config)) =
     (case targetName cl of Some t \<Rightarrow> Some t | None \<Rightarrow> targetName config)"
  "targetConfigPath (snd (CLIConfigBuilder_populateConfig cl config)) =
     (case targetConfigPath cl of Some p \<Rightarrow> Some p | None \<Rightarrow> targetConfigPath config)"
  "maxThreads (snd (CLIConfigBuilder_populateConfig cl config)) =
     (case maxThreads cl of Some n \<Rightarrow> Some n | None \<Rightarrow> maxThreads config)"
  "emitBytecodeVersion (snd (CLIConfigBuilder_populateConfig cl config)) =
     (case emitBytecodeVersion cl of Some n \<Rightarrow> Some n | None \<Rightarrow> emitBytecodeVersion config)"
  "verbosityLevel (snd (CLIConfigBuilder_populateConfig cl config)) =
     (if verbosityLevel cl \<noteq> QEVerbosity_VerbosityCnt then verbosityLevel cl
      else verbosityLevel config)"
  by (simp_all add: CLIConfigBuilder_populateConfig_def Let_def split: option.splits)




subsection \<open>The environment stage\<close>






subsection \<open>The command-line stage with file names, and the defaults\<close>

lemma CLI_files_success:
  assumes "CLIConfigBuilder_populateConfig_files getExtension fileExtensionToInputType
       fileExtensionToAction cl config inputFilename outputFilename = (success, out, cl', c2)"
  shows "c2 = (snd (CLIConfigBuilder_populateConfig cl config))
            \<lparr>inputType := inputType cl', emitAction := emitAction cl'\<rparr>"
    and "inputType cl' =
          (if inputType cl \<noteq> InputType_Undetected then inputType cl
           else if emitBytecodeFlag cl then InputType_Bytecode
           else fileExtensionToInputType (getExtension inputFilename))"
    and "emitAction cl' =
          (if emitAction cl \<noteq> EmitAction_Undetected then emitAction cl
           else if outputFilename = ''-'' then EmitAction_MLIR
           else if fileExtensionToAction (getExtension outputFilename) = EmitAction_Undetected
           then EmitAction_MLIR
           else fileExtensionToAction (getExtension outputFilename))"
  using assms
  by (auto simp add: CLIConfigBuilder_populateConfig_files_def CLI_populate_success
      computeInputType_def computeOutputType_def getInputType_def setInputType_def
      shouldEmitBytecode_def getEmitAction_def setEmitAction_def Let_def
      split: prod.splits if_splits)


lemma computeOutputType_success:
  "fst (computeOutputType getExtension fileExtensionToAction outputFilename st) = success"
  by (simp add: computeOutputType_def Let_def)

lemma computeOutputType_detected:
  "emitAction (snd (snd (computeOutputType getExtension fileExtensionToAction outputFilename st)))
     \<noteq> EmitAction_Undetected"
proof (cases "emitAction st = EmitAction_Undetected")
  case True
  then show ?thesis
    by (simp add: computeOutputType_def setEmitAction_def Let_def)
next
  case False
  then show ?thesis
    by (simp add: computeOutputType_def getEmitAction_def Let_def)
qed

subsection \<open>Claims\<close>

text \<open>
  C9. \<^verbatim>\<open>setPassPlugins\<close> writes the \<^verbatim>\<open>dialectPlugins\<close> member: afterwards both
  \<^verbatim>\<open>getPassPlugins\<close> and \<^verbatim>\<open>getDialectPlugins\<close> return the list that was passed, the
  member \<^verbatim>\<open>passPlugins\<close> is what it was, and the call has the same effect as
  \<^verbatim>\<open>setDialectPlugins\<close>.
\<close>

theorem setPassPlugins_writes_dialectPlugins:
  "getPassPlugins (setPassPlugins l c) = l
   \<and> getDialectPlugins (setPassPlugins l c) = l
   \<and> passPlugins (setPassPlugins l c) = passPlugins c
   \<and> setPassPlugins l c = setDialectPlugins l c"
  by (simp add: setPassPlugins_def getPassPlugins_def getDialectPlugins_def
      setDialectPlugins_def)

text \<open>
  C5. \<^verbatim>\<open>emitDiagnostic\<close> always returns the failure that wraps the error code it was
  given and the text \<open>Severity: category description\<close>, a line feed and the message.
  When a callback is present the world the call leaves is the one the callback makes of
  the diagnostic, applied once, and without a callback the world is unchanged; the
  returned error is the same in both cases and is never \<^verbatim>\<open>success\<close>. The overload
  that takes severity, category and message builds the diagnostic and does the same.
\<close>

theorem emitDiagnostic_reports_and_fails:
  "emitDiagnostic onDiagnostic diag ec w =
     (StringError ec
        (getSeverityAsString (severity diag) @ '': ''
           @ getErrorCategoryAsString (category diag) @ [CHR 0x0A] @ message diag),
      case onDiagnostic of Some diagnosticCallback \<Rightarrow> diagnosticCallback diag w | None \<Rightarrow> w)
   \<and> fst (emitDiagnostic onDiagnostic diag ec w) \<noteq> success
   \<and> fst (emitDiagnostic onDiagnostic diag ec w) = fst (emitDiagnostic None diag ec w)
   \<and> emitDiagnostic_parts onDiagnostic sev cat msg ec w =
       emitDiagnostic onDiagnostic \<lparr>severity = sev, category = cat, message = msg\<rparr> ec w"
proof (cases onDiagnostic)
  case None
  then show ?thesis
    by (simp add: emitDiagnostic_def emitDiagnostic_parts_def toString_def)
next
  case (Some diagnosticCallback)
  then show ?thesis
    by (simp add: emitDiagnostic_def emitDiagnostic_parts_def toString_def)
qed

text \<open>
  C5, at concrete inputs: a callback that appends to a log receives the diagnostic, and
  the call without a callback returns the same kind of failure.
\<close>

theorem emitDiagnostic_reports_and_fails_witness:
  "emitDiagnostic (Some (\<lambda>d log. log @ [d]))
     \<lparr>severity = Severity_Error, category = QECompilationFailure, message = ''boom''\<rparr>
     inconvertibleErrorCode [] =
     (StringError inconvertibleErrorCode
        (''Error: Failure during compilation'' @ [CHR 0x0A] @ ''boom''),
      [\<lparr>severity = Severity_Error, category = QECompilationFailure, message = ''boom''\<rparr>])
   \<and> emitDiagnostic None
     \<lparr>severity = Severity_Warning, category = QELinkSignatureWarning, message = ''sig''\<rparr>
     (std_error_code 2) ([] :: Diagnostic list) =
     (StringError (std_error_code 2)
        (''Warning: Signature file format is invalid but may be processed'' @ [CHR 0x0A]
           @ ''sig''),
      [])"
  using
    emitDiagnostic_reports_and_fails [of "Some (\<lambda>d log. log @ [d])"
      "\<lparr>severity = Severity_Error, category = QECompilationFailure, message = ''boom''\<rparr>"
      inconvertibleErrorCode "[]"]
    emitDiagnostic_reports_and_fails [of None
      "\<lparr>severity = Severity_Warning, category = QELinkSignatureWarning, message = ''sig''\<rparr>"
      "std_error_code 2" "[] :: Diagnostic list"]
  by simp

text \<open>
  C2. \<^verbatim>\<open>computeInputType\<close>: an input kind that is already set is kept; otherwise a
  requested bytecode emission makes it \<^verbatim>\<open>Bytecode\<close>; otherwise it is what the
  extension of the file name gives, and the call succeeds when the file name is \<^verbatim>\<open>-\<close>
  or the extension gives a kind. When the kind was not set, bytecode emission was not
  requested, the file name is not \<^verbatim>\<open>-\<close> and the extension gives no kind, the call
  fails with the autodetection message and leaves the state as it was. The four cases
  cover every state and file name.
\<close>

theorem computeInputType_resolution:
  "(inputType st \<noteq> InputType_Undetected \<longrightarrow>
      computeInputType getExtension fileExtensionToInputType inputFilename st = (success, st))
   \<and> (inputType st = InputType_Undetected \<and> emitBytecodeFlag st \<longrightarrow>
        computeInputType getExtension fileExtensionToInputType inputFilename st =
          (success, st\<lparr>inputType := InputType_Bytecode\<rparr>))
   \<and> (inputType st = InputType_Undetected \<and> \<not> emitBytecodeFlag st
        \<and> (inputFilename = ''-''
             \<or> fileExtensionToInputType (getExtension inputFilename) \<noteq> InputType_Undetected) \<longrightarrow>
        computeInputType getExtension fileExtensionToInputType inputFilename st =
          (success, st\<lparr>inputType := fileExtensionToInputType (getExtension inputFilename)\<rparr>))
   \<and> (inputType st = InputType_Undetected \<and> \<not> emitBytecodeFlag st
        \<and> inputFilename \<noteq> ''-''
        \<and> fileExtensionToInputType (getExtension inputFilename) = InputType_Undetected \<longrightarrow>
        computeInputType getExtension fileExtensionToInputType inputFilename st =
          (StringError inconvertibleErrorCode
             ''Unable to autodetect file extension type! Please specify the input type with -X'',
           st))"
proof (intro conjI impI)
  assume "inputType st \<noteq> InputType_Undetected"
  then show "computeInputType getExtension fileExtensionToInputType inputFilename st
      = (success, st)"
    by (simp add: computeInputType_def getInputType_def)
next
  assume "inputType st = InputType_Undetected \<and> emitBytecodeFlag st"
  then show "computeInputType getExtension fileExtensionToInputType inputFilename st =
          (success, st\<lparr>inputType := InputType_Bytecode\<rparr>)"
    by (simp add: computeInputType_def getInputType_def setInputType_def shouldEmitBytecode_def)
next
  assume "inputType st = InputType_Undetected \<and> \<not> emitBytecodeFlag st
        \<and> (inputFilename = ''-''
             \<or> fileExtensionToInputType (getExtension inputFilename) \<noteq> InputType_Undetected)"
  then show "computeInputType getExtension fileExtensionToInputType inputFilename st =
          (success, st\<lparr>inputType := fileExtensionToInputType (getExtension inputFilename)\<rparr>)"
    by (auto simp add: computeInputType_def getInputType_def setInputType_def
        shouldEmitBytecode_def Let_def)
next
  assume a: "inputType st = InputType_Undetected \<and> \<not> emitBytecodeFlag st
        \<and> inputFilename \<noteq> ''-''
        \<and> fileExtensionToInputType (getExtension inputFilename) = InputType_Undetected"
  then have "st\<lparr>inputType := InputType_Undetected\<rparr> = st"
    by (metis QEConfig.surjective QEConfig.update_convs(3))
  with a show "computeInputType getExtension fileExtensionToInputType inputFilename st =
          (StringError inconvertibleErrorCode
             ''Unable to autodetect file extension type! Please specify the input type with -X'',
           st)"
    by (simp add: computeInputType_def getInputType_def setInputType_def
        shouldEmitBytecode_def Let_def)
qed

text \<open>
  C2, at the file names of the specification, with the tables modelled from it.
\<close>

theorem computeInputType_resolution_witness:
  "computeInputType getExtension_spec fileExtensionToInputType_spec ''prog.qasm''
      (QEConfigCLOptions_init MlirOptMainConfig_default True) =
     (success, (QEConfigCLOptions_init MlirOptMainConfig_default True)
                 \<lparr>inputType := InputType_QASM\<rparr>)
   \<and> computeInputType getExtension_spec fileExtensionToInputType_spec ''prog.bc''
      (QEConfigCLOptions_init MlirOptMainConfig_default True) =
     (success, (QEConfigCLOptions_init MlirOptMainConfig_default True)
                 \<lparr>inputType := InputType_Bytecode\<rparr>)
   \<and> computeInputType getExtension_spec fileExtensionToInputType_spec ''prog.txt''
      ((QEConfigCLOptions_init MlirOptMainConfig_default True)\<lparr>inputType := InputType_MLIR\<rparr>) =
     (success, (QEConfigCLOptions_init MlirOptMainConfig_default True)
                 \<lparr>inputType := InputType_MLIR\<rparr>)
   \<and> computeInputType getExtension_spec fileExtensionToInputType_spec ''prog.qasm''
      ((QEConfigCLOptions_init MlirOptMainConfig_default True)\<lparr>emitBytecodeFlag := True\<rparr>) =
     (success, (QEConfigCLOptions_init MlirOptMainConfig_default True)
                 \<lparr>emitBytecodeFlag := True, inputType := InputType_Bytecode\<rparr>)
   \<and> fst (computeInputType getExtension_spec fileExtensionToInputType_spec ''prog.txt''
      (QEConfigCLOptions_init MlirOptMainConfig_default True)) =
     StringError inconvertibleErrorCode
       ''Unable to autodetect file extension type! Please specify the input type with -X''
   \<and> fst (computeInputType getExtension_spec fileExtensionToInputType_spec ''-''
      (QEConfigCLOptions_init MlirOptMainConfig_default True)) = success"
proof -
  let ?st = "QEConfigCLOptions_init MlirOptMainConfig_default True"
  have st: "inputType ?st = InputType_Undetected" "\<not> emitBytecodeFlag ?st"
    by (simp_all add: QEConfigCLOptions_init_def QEConfig_default_def
        MlirOptMainConfig_default_def MlirOptMainConfig.defs QEConfig.defs)
  note r = computeInputType_resolution [where getExtension = getExtension_spec
      and fileExtensionToInputType = fileExtensionToInputType_spec]
  have a: "computeInputType getExtension_spec fileExtensionToInputType_spec ''prog.qasm'' ?st =
      (success, ?st\<lparr>inputType := InputType_QASM\<rparr>)"
    using r [of ?st "''prog.qasm''"] st by (simp add: getExtension_spec_def)
  have b: "computeInputType getExtension_spec fileExtensionToInputType_spec ''prog.bc'' ?st =
      (success, ?st\<lparr>inputType := InputType_Bytecode\<rparr>)"
    using r [of ?st "''prog.bc''"] st by (simp add: getExtension_spec_def)
  have c: "computeInputType getExtension_spec fileExtensionToInputType_spec ''prog.txt''
      (?st\<lparr>inputType := InputType_MLIR\<rparr>) = (success, ?st\<lparr>inputType := InputType_MLIR\<rparr>)"
    using r [of "?st\<lparr>inputType := InputType_MLIR\<rparr>" "''prog.txt''"] by simp
  have d: "computeInputType getExtension_spec fileExtensionToInputType_spec ''prog.qasm''
      (?st\<lparr>emitBytecodeFlag := True\<rparr>) =
      (success, ?st\<lparr>emitBytecodeFlag := True, inputType := InputType_Bytecode\<rparr>)"
    using r [of "?st\<lparr>emitBytecodeFlag := True\<rparr>" "''prog.qasm''"] st by simp
  have e: "fst (computeInputType getExtension_spec fileExtensionToInputType_spec ''prog.txt'' ?st)
      = StringError inconvertibleErrorCode
       ''Unable to autodetect file extension type! Please specify the input type with -X''"
    using r [of ?st "''prog.txt''"] st by (simp add: getExtension_spec_def)
  have f: "fst (computeInputType getExtension_spec fileExtensionToInputType_spec ''-'' ?st)
      = success"
    using r [of ?st "''-''"] st by simp
  from a b c d e f show ?thesis by simp
qed

text \<open>
  C3. \<^verbatim>\<open>computeOutputType\<close>: for the file name \<^verbatim>\<open>-\<close> an unset action becomes textual
  MLIR and a set one is kept, with nothing printed. For any other name an unset action
  becomes the one the extension gives, or textual MLIR with a warning when the extension
  gives none; a set action is kept, with the mismatch warning when the extension gives a
  different one. No case is an error.
\<close>

theorem computeOutputType_resolution:
  "(outputFilename = ''-'' \<and> emitAction st = EmitAction_Undetected \<longrightarrow>
      computeOutputType getExtension fileExtensionToAction outputFilename st =
        (success, [], st\<lparr>emitAction := EmitAction_MLIR\<rparr>))
   \<and> (outputFilename = ''-'' \<and> emitAction st \<noteq> EmitAction_Undetected \<longrightarrow>
        computeOutputType getExtension fileExtensionToAction outputFilename st =
          (success, [], st))
   \<and> (outputFilename \<noteq> ''-'' \<and> emitAction st = EmitAction_Undetected
        \<and> fileExtensionToAction (getExtension outputFilename) \<noteq> EmitAction_Undetected \<longrightarrow>
        computeOutputType getExtension fileExtensionToAction outputFilename st =
          (success, [],
           st\<lparr>emitAction := fileExtensionToAction (getExtension outputFilename)\<rparr>))
   \<and> (outputFilename \<noteq> ''-'' \<and> emitAction st = EmitAction_Undetected
        \<and> fileExtensionToAction (getExtension outputFilename) = EmitAction_Undetected \<longrightarrow>
        computeOutputType getExtension fileExtensionToAction outputFilename st =
          (success,
           [''Cannot determine the file extension of the specified output file ''
              @ outputFilename @ '' defaulting to dumping MLIR'' @ [CHR 0x0A]],
           st\<lparr>emitAction := EmitAction_MLIR\<rparr>))
   \<and> (outputFilename \<noteq> ''-'' \<and> emitAction st \<noteq> EmitAction_Undetected
        \<and> fileExtensionToAction (getExtension outputFilename) \<noteq> emitAction st \<longrightarrow>
        computeOutputType getExtension fileExtensionToAction outputFilename st =
          (success,
           [''Warning! The output type in the file extension doesn't ''
              @ ''match the output type specified by --emit!'' @ [CHR 0x0A]],
           st))
   \<and> (outputFilename \<noteq> ''-'' \<and> emitAction st \<noteq> EmitAction_Undetected
        \<and> fileExtensionToAction (getExtension outputFilename) = emitAction st \<longrightarrow>
        computeOutputType getExtension fileExtensionToAction outputFilename st =
          (success, [], st))"
proof -
  let ?ext = "fileExtensionToAction (getExtension outputFilename)"
  have stdout: "outputFilename = ''-'' \<Longrightarrow>
      computeOutputType getExtension fileExtensionToAction outputFilename st =
        (if emitAction st = EmitAction_Undetected
         then (success, [], st\<lparr>emitAction := EmitAction_MLIR\<rparr>) else (success, [], st))"
    by (simp add: computeOutputType_def setEmitAction_def)
  have unset: "outputFilename \<noteq> ''-'' \<Longrightarrow> emitAction st = EmitAction_Undetected \<Longrightarrow>
      computeOutputType getExtension fileExtensionToAction outputFilename st =
        (if ?ext = EmitAction_Undetected
         then (success,
               [''Cannot determine the file extension of the specified output file ''
                  @ outputFilename @ '' defaulting to dumping MLIR'' @ [CHR 0x0A]],
               st\<lparr>emitAction := EmitAction_MLIR\<rparr>)
         else (success, [], st\<lparr>emitAction := ?ext\<rparr>))"
    by (simp add: computeOutputType_def setEmitAction_def Let_def)
  have set: "outputFilename \<noteq> ''-'' \<Longrightarrow> emitAction st \<noteq> EmitAction_Undetected \<Longrightarrow>
      computeOutputType getExtension fileExtensionToAction outputFilename st =
        (if ?ext \<noteq> emitAction st
         then (success,
               [''Warning! The output type in the file extension doesn't ''
                  @ ''match the output type specified by --emit!'' @ [CHR 0x0A]],
               st)
         else (success, [], st))"
    by (simp add: computeOutputType_def getEmitAction_def Let_def)
  show ?thesis
    using stdout unset set by simp
qed

text \<open>
  C3, at concrete file names: a recognised extension, an unrecognised one, and an
  explicit action that the extension contradicts.
\<close>

theorem computeOutputType_resolution_witness:
  "computeOutputType getExtension_spec fileExtensionToAction_spec ''out.qem''
      (QEConfigCLOptions_init MlirOptMainConfig_default True) =
     (success, [],
      (QEConfigCLOptions_init MlirOptMainConfig_default True)\<lparr>emitAction := EmitAction_QEM\<rparr>)
   \<and> computeOutputType getExtension_spec fileExtensionToAction_spec ''-''
      (QEConfigCLOptions_init MlirOptMainConfig_default True) =
     (success, [],
      (QEConfigCLOptions_init MlirOptMainConfig_default True)\<lparr>emitAction := EmitAction_MLIR\<rparr>)
   \<and> computeOutputType getExtension_spec fileExtensionToAction_spec ''-''
      ((QEConfigCLOptions_init MlirOptMainConfig_default True)\<lparr>emitAction := EmitAction_AST\<rparr>) =
     (success, [],
      (QEConfigCLOptions_init MlirOptMainConfig_default True)\<lparr>emitAction := EmitAction_AST\<rparr>)
   \<and> computeOutputType getExtension_spec fileExtensionToAction_spec ''out.xyz''
      (QEConfigCLOptions_init MlirOptMainConfig_default True) =
     (success,
      [''Cannot determine the file extension of the specified output file out.xyz''
         @ '' defaulting to dumping MLIR'' @ [CHR 0x0A]],
      (QEConfigCLOptions_init MlirOptMainConfig_default True)\<lparr>emitAction := EmitAction_MLIR\<rparr>)
   \<and> computeOutputType getExtension_spec fileExtensionToAction_spec ''out.qem''
      ((QEConfigCLOptions_init MlirOptMainConfig_default True)\<lparr>emitAction := EmitAction_WaveMem\<rparr>) =
     (success,
      [''Warning! The output type in the file extension doesn't ''
         @ ''match the output type specified by --emit!'' @ [CHR 0x0A]],
      (QEConfigCLOptions_init MlirOptMainConfig_default True)\<lparr>emitAction := EmitAction_WaveMem\<rparr>)
   \<and> computeOutputType getExtension_spec fileExtensionToAction_spec ''out.qem''
      ((QEConfigCLOptions_init MlirOptMainConfig_default True)\<lparr>emitAction := EmitAction_QEM\<rparr>) =
     (success, [],
      (QEConfigCLOptions_init MlirOptMainConfig_default True)\<lparr>emitAction := EmitAction_QEM\<rparr>)"
proof -
  let ?st = "QEConfigCLOptions_init MlirOptMainConfig_default True"
  have st: "emitAction ?st = EmitAction_Undetected"
    by (simp add: QEConfigCLOptions_init_def QEConfig_default_def
        MlirOptMainConfig_default_def MlirOptMainConfig.defs QEConfig.defs)
  note r = computeOutputType_resolution [where getExtension = getExtension_spec
      and fileExtensionToAction = fileExtensionToAction_spec]
  have a: "computeOutputType getExtension_spec fileExtensionToAction_spec ''out.qem'' ?st =
      (success, [], ?st\<lparr>emitAction := EmitAction_QEM\<rparr>)"
    using r [of "''out.qem''" ?st] st by (simp add: getExtension_spec_def)
  have b: "computeOutputType getExtension_spec fileExtensionToAction_spec ''-'' ?st =
      (success, [], ?st\<lparr>emitAction := EmitAction_MLIR\<rparr>)"
    using r [of "''-''" ?st] st by simp
  have c: "computeOutputType getExtension_spec fileExtensionToAction_spec ''-''
      (?st\<lparr>emitAction := EmitAction_AST\<rparr>) = (success, [], ?st\<lparr>emitAction := EmitAction_AST\<rparr>)"
    using r [of "''-''" "?st\<lparr>emitAction := EmitAction_AST\<rparr>"] by simp
  have d: "computeOutputType getExtension_spec fileExtensionToAction_spec ''out.xyz'' ?st =
      (success,
       [''Cannot determine the file extension of the specified output file out.xyz''
          @ '' defaulting to dumping MLIR'' @ [CHR 0x0A]],
       ?st\<lparr>emitAction := EmitAction_MLIR\<rparr>)"
    using r [of "''out.xyz''" ?st] st by (simp add: getExtension_spec_def)
  have e: "computeOutputType getExtension_spec fileExtensionToAction_spec ''out.qem''
      (?st\<lparr>emitAction := EmitAction_WaveMem\<rparr>) =
      (success,
       [''Warning! The output type in the file extension doesn't ''
          @ ''match the output type specified by --emit!'' @ [CHR 0x0A]],
       ?st\<lparr>emitAction := EmitAction_WaveMem\<rparr>)"
    using r [of "''out.qem''" "?st\<lparr>emitAction := EmitAction_WaveMem\<rparr>"]
    by (simp add: getExtension_spec_def)
  have f: "computeOutputType getExtension_spec fileExtensionToAction_spec ''out.qem''
      (?st\<lparr>emitAction := EmitAction_QEM\<rparr>) = (success, [], ?st\<lparr>emitAction := EmitAction_QEM\<rparr>)"
    using r [of "''out.qem''" "?st\<lparr>emitAction := EmitAction_QEM\<rparr>"]
    by (simp add: getExtension_spec_def)
  from a b c d e f show ?thesis by simp
qed

text \<open>
  C8. \<^verbatim>\<open>computeOutputType\<close> succeeds for every output file name and every state, and
  the emit action it leaves is never \<^verbatim>\<open>Undetected\<close>. So when \<^verbatim>\<open>populateConfig\<close> with
  the file names succeeds, the emit action of the configuration it filled is not
  \<^verbatim>\<open>Undetected\<close> either.
\<close>

theorem computeOutputType_total:
  "fst (computeOutputType getExtension fileExtensionToAction outputFilename st) = success
   \<and> emitAction (snd (snd (computeOutputType getExtension fileExtensionToAction outputFilename st)))
       \<noteq> EmitAction_Undetected
   \<and> (CLIConfigBuilder_populateConfig_files getExtension fileExtensionToInputType
         fileExtensionToAction cl config inputFilename outputFilename = (success, out, cl', c2) \<longrightarrow>
       emitAction c2 \<noteq> EmitAction_Undetected \<and> emitAction cl' \<noteq> EmitAction_Undetected)"
proof (intro conjI impI)
  show "fst (computeOutputType getExtension fileExtensionToAction outputFilename st) = success"
    by (rule computeOutputType_success)
  show "emitAction (snd (snd (computeOutputType getExtension fileExtensionToAction
          outputFilename st))) \<noteq> EmitAction_Undetected"
    by (rule computeOutputType_detected)
next
  assume r: "CLIConfigBuilder_populateConfig_files getExtension fileExtensionToInputType
         fileExtensionToAction cl config inputFilename outputFilename = (success, out, cl', c2)"
  have ea: "emitAction cl' \<noteq> EmitAction_Undetected"
    using CLI_files_success(3) [OF r] by (simp split: if_splits)
  then show "emitAction cl' \<noteq> EmitAction_Undetected" .
  from ea show "emitAction c2 \<noteq> EmitAction_Undetected"
    by (subst CLI_files_success(1) [OF r]) simp
qed

text \<open>
  C8, at the empty output file name: the call with the file names succeeds and the
  configuration gets textual MLIR.
\<close>

theorem computeOutputType_total_witness:
  "fst (CLIConfigBuilder_populateConfig_files getExtension_spec fileExtensionToInputType_spec
          fileExtensionToAction_spec cl_example (QEConfig_default MlirOptMainConfig_default)
          ''prog.mlir'' []) = success
   \<and> emitAction (snd (snd (snd (CLIConfigBuilder_populateConfig_files getExtension_spec
          fileExtensionToInputType_spec fileExtensionToAction_spec cl_example
          (QEConfig_default MlirOptMainConfig_default) ''prog.mlir'' [])))) = EmitAction_MLIR"
proof -
  let ?r = "CLIConfigBuilder_populateConfig_files getExtension_spec fileExtensionToInputType_spec
          fileExtensionToAction_spec cl_example (QEConfig_default MlirOptMainConfig_default)
          ''prog.mlir'' []"
  have cl: "inputType cl_example = InputType_Undetected"
    "emitAction cl_example = EmitAction_Undetected" "\<not> emitBytecodeFlag cl_example"
    by (simp_all add: cl_example_def targetName_callback_def QEConfigCLOptions_init_def
        QEConfig_default_def MlirOptMainConfig_default_def MlirOptMainConfig.defs QEConfig.defs)
  have v: "?r = (success,
      [''Cannot determine the file extension of the specified output file ''
         @ [] @ '' defaulting to dumping MLIR'' @ [CHR 0x0A]],
      cl_example\<lparr>inputType := InputType_MLIR, emitAction := EmitAction_MLIR\<rparr>,
      (snd (CLIConfigBuilder_populateConfig cl_example
              (QEConfig_default MlirOptMainConfig_default)))
        \<lparr>inputType := InputType_MLIR, emitAction := EmitAction_MLIR\<rparr>)"
    by (simp add: CLIConfigBuilder_populateConfig_files_def CLI_populate_success
        computeInputType_def computeOutputType_def getInputType_def setInputType_def
        shouldEmitBytecode_def getEmitAction_def setEmitAction_def Let_def cl
        getExtension_spec_def case_prod_beta)
  from computeOutputType_total [of getExtension_spec fileExtensionToAction_spec "[]" cl_example
      fileExtensionToInputType_spec cl_example "QEConfig_default MlirOptMainConfig_default"
      "''prog.mlir''", THEN conjunct2, THEN conjunct2, rule_format, OF v] v
  show ?thesis by simp
qed

text \<open>
  C10. The callback of \<^verbatim>\<open>--max-threads\<close> stores a strictly positive value and leaves the
  whole state as it was for zero and for negative values. It has no error path, and
  \<^verbatim>\<open>populateConfig\<close> afterwards succeeds: the configuration gets the positive value,
  or else a cap the singleton already had, or else keeps its own.
\<close>

theorem maxThreads_callback_positive_only:
  "maxThreads_callback cliMaxThreads st =
     (if 0 < cliMaxThreads then st\<lparr>maxThreads := Some (nat cliMaxThreads)\<rparr> else st)
   \<and> maxThreads (maxThreads_callback cliMaxThreads st) =
       (if 0 < cliMaxThreads then Some (nat cliMaxThreads) else maxThreads st)
   \<and> fst (CLIConfigBuilder_populateConfig (maxThreads_callback cliMaxThreads st) config) = success
   \<and> maxThreads (snd (CLIConfigBuilder_populateConfig (maxThreads_callback cliMaxThreads st) config)) =
       (if 0 < cliMaxThreads then Some (nat cliMaxThreads)
        else case maxThreads st of Some n \<Rightarrow> Some n | None \<Rightarrow> maxThreads config)"
proof (cases "0 < cliMaxThreads")
  case True
  then have "maxThreads_callback cliMaxThreads st = st\<lparr>maxThreads := Some (nat cliMaxThreads)\<rparr>"
    by (simp add: maxThreads_callback_def)
  with True show ?thesis
    by (simp add: CLI_populate_success CLI_populate_optional)
next
  case False
  then have "maxThreads_callback cliMaxThreads st = st"
    by (simp add: maxThreads_callback_def)
  with False show ?thesis
    by (simp add: CLI_populate_success CLI_populate_optional)
qed

text \<open>
  C10, at the values 0, -3 and 4.
\<close>

theorem maxThreads_callback_positive_only_witness:
  "maxThreads (maxThreads_callback 0 (QEConfigCLOptions_init MlirOptMainConfig_default True)) = None
   \<and> maxThreads (maxThreads_callback (- 3)
        ((QEConfigCLOptions_init MlirOptMainConfig_default True)\<lparr>maxThreads := Some 8\<rparr>)) = Some 8
   \<and> maxThreads (maxThreads_callback 4 (QEConfigCLOptions_init MlirOptMainConfig_default True)) = Some 4
   \<and> maxThreads (snd (CLIConfigBuilder_populateConfig
        (maxThreads_callback 0 (QEConfigCLOptions_init MlirOptMainConfig_default True))
        ((QEConfig_default MlirOptMainConfig_default)\<lparr>maxThreads := Some 2\<rparr>))) = Some 2"
  using
    maxThreads_callback_positive_only [of 0 "QEConfigCLOptions_init MlirOptMainConfig_default True"
      "(QEConfig_default MlirOptMainConfig_default)\<lparr>maxThreads := Some 2\<rparr>"]
    maxThreads_callback_positive_only [of "- 3"
      "(QEConfigCLOptions_init MlirOptMainConfig_default True)\<lparr>maxThreads := Some 8\<rparr>"]
    maxThreads_callback_positive_only [of 4 "QEConfigCLOptions_init MlirOptMainConfig_default True"]
  by (simp add: maxThreads_callback_def CLI_populate_optional QEConfigCLOptions_init_def
      QEConfig_default_def MlirOptMainConfig_default_def MlirOptMainConfig.defs QEConfig.defs)






text \<open>
  C6. \<^verbatim>\<open>getTarget\<close> returns the instance bound to the context itself when there is one;
  when there is none, the instance bound to the null pointer; and when there is neither,
  an error and not a null value. After a \<^verbatim>\<open>createTarget\<close> whose factory gave an instance,
  \<^verbatim>\<open>getTarget\<close> for that context returns this instance, also when an earlier
  \<^verbatim>\<open>createTarget\<close> had bound another one to the context. A failing factory leaves the
  store as it was.
\<close>

theorem getTarget_lookup:
  "(managedTargets context = Some t \<longrightarrow> getTarget context managedTargets = Inr t)
   \<and> (managedTargets context = None \<and> managedTargets None = Some t \<longrightarrow>
        getTarget context managedTargets = Inr t)
   \<and> (managedTargets context = None \<and> managedTargets None = None \<longrightarrow>
        (\<exists>e. getTarget context managedTargets = Inl e \<and> e \<noteq> success))
   \<and> (factory configuration = Inr t \<longrightarrow>
        fst (createTarget factory context configuration managedTargets) = Inr t
        \<and> getTarget context (snd (createTarget factory context configuration managedTargets))
            = Inr t)
   \<and> (factory configuration = Inr t \<and> factory' configuration' = Inr t' \<longrightarrow>
        getTarget context
          (snd (createTarget factory' context configuration'
                  (snd (createTarget factory context configuration managedTargets)))) = Inr t')
   \<and> (factory configuration = Inl err \<longrightarrow>
        createTarget factory context configuration managedTargets = (Inl err, managedTargets))"
  by (simp add: getTarget_def createTarget_def)

text \<open>
  C6, on a store with one context and the null pointer bound.
\<close>

theorem getTarget_lookup_witness:
  "getTarget (Some (1::nat)) [Some 1 \<mapsto> ''own'', None \<mapsto> ''shared''] = Inr ''own''
   \<and> getTarget (Some (2::nat)) [Some 1 \<mapsto> ''own'', None \<mapsto> ''shared''] = Inr ''shared''
   \<and> (\<exists>e. getTarget (Some (2::nat)) [Some 1 \<mapsto> ''own''] = Inl e \<and> e \<noteq> success)
   \<and> getTarget (Some (2::nat))
        (snd (createTarget (\<lambda>cfg. Inr ''new'') (Some 2) (None :: string option)
                [Some 1 \<mapsto> ''own''])) = Inr ''new''
   \<and> getTarget (Some (2::nat))
        (snd (createTarget (\<lambda>cfg. Inr ''newer'') (Some 2) (None :: string option)
           (snd (createTarget (\<lambda>cfg. Inr ''new'') (Some 2) (None :: string option)
                   [Some 1 \<mapsto> ''own''])))) = Inr ''newer''"
  using
    getTarget_lookup [of "[Some (1::nat) \<mapsto> ''own'', None \<mapsto> ''shared'']" "Some 1" "''own''"
      "\<lambda>cfg. Inr ''own''" "None :: string option" "\<lambda>cfg. Inr ''own''"
      "None :: string option" "''own''" success]
    getTarget_lookup [of "[Some (1::nat) \<mapsto> ''own'', None \<mapsto> ''shared'']" "Some 2" "''shared''"
      "\<lambda>cfg. Inr ''shared''" "None :: string option" "\<lambda>cfg. Inr ''shared''"
      "None :: string option" "''shared''" success]
    getTarget_lookup [of "[Some (1::nat) \<mapsto> ''own'']" "Some 2" "''new''"
      "\<lambda>cfg. Inr ''new''" "None :: string option" "\<lambda>cfg. Inr ''newer''"
      "None :: string option" "''newer''" success]
  by simp

text \<open>
  C7. The first call of \<^verbatim>\<open>getResourcesDir\<close> returns the value of \<^verbatim>\<open>QEC_RESOURCES\<close> when
  it is set and the compiled-in prefix otherwise, and a later call returns the same. The
  resource directory of a target is this root with the components \<^verbatim>\<open>targets\<close> and the
  target's resource path appended; for a root that is not empty and does not end in a
  separator, and a resource path that does not start with one, that is the root, then
  \<^verbatim>\<open>/targets/\<close>, then the resource path.
\<close>

theorem resources_dir_resolution:
  "(getenv ''QEC_RESOURCES'' = Some env \<longrightarrow>
      getResourcesDir QEC_RESOURCES_INSTALL_PREFIX getenv None = (env, Some env))
   \<and> (getenv ''QEC_RESOURCES'' = None \<longrightarrow>
        getResourcesDir QEC_RESOURCES_INSTALL_PREFIX getenv None =
          (QEC_RESOURCES_INSTALL_PREFIX, Some QEC_RESOURCES_INSTALL_PREFIX))
   \<and> getResourcesDir QEC_RESOURCES_INSTALL_PREFIX getenv
        (snd (getResourcesDir QEC_RESOURCES_INSTALL_PREFIX getenv None)) =
       getResourcesDir QEC_RESOURCES_INSTALL_PREFIX getenv None
   \<and> fst (getTargetResourcesDir QEC_RESOURCES_INSTALL_PREFIX getenv getResourcePath target static)
       = path_append (fst (getResourcesDir QEC_RESOURCES_INSTALL_PREFIX getenv static))
           [''targets'', getResourcePath target]
   \<and> (fst (getResourcesDir QEC_RESOURCES_INSTALL_PREFIX getenv static) = root
        \<and> root \<noteq> [] \<and> last root \<noteq> CHR ''/''
        \<and> take 1 (getResourcePath target) \<noteq> ''/'' \<longrightarrow>
        fst (getTargetResourcesDir QEC_RESOURCES_INSTALL_PREFIX getenv getResourcePath target static)
          = root @ ''/targets/'' @ getResourcePath target)"
proof (intro conjI impI)
  assume a: "fst (getResourcesDir QEC_RESOURCES_INSTALL_PREFIX getenv static) = root
        \<and> root \<noteq> [] \<and> last root \<noteq> CHR ''/''
        \<and> take 1 (getResourcePath target) \<noteq> ''/''"
  have "path_append root [''targets'', getResourcePath target] =
          root @ ''/targets/'' @ getResourcePath target"
    using a by (cases "getResourcePath target") (simp_all add: path_append_def path_append1_def)
  with a show "fst (getTargetResourcesDir QEC_RESOURCES_INSTALL_PREFIX getenv getResourcePath
                  target static) = root @ ''/targets/'' @ getResourcePath target"
    by (simp add: getTargetResourcesDir_def case_prod_beta)
qed (simp_all add: getResourcesDir_def anon_getResourcesDir_def getTargetResourcesDir_def
      case_prod_beta Let_def)

text \<open>
  C7, with and without \<^verbatim>\<open>QEC_RESOURCES\<close>, for a target whose resource path is
  \<^verbatim>\<open>mock\<close>.
\<close>

theorem resources_dir_resolution_witness:
  "getResourcesDir ''/usr/share/qec'' [''QEC_RESOURCES'' \<mapsto> ''/opt/res''] None =
     (''/opt/res'', Some ''/opt/res'')
   \<and> getResourcesDir ''/usr/share/qec'' Map.empty None =
     (''/usr/share/qec'', Some ''/usr/share/qec'')
   \<and> fst (getTargetResourcesDir ''/usr/share/qec'' [''QEC_RESOURCES'' \<mapsto> ''/opt/res'']
        (\<lambda>t. t) ''mock'' None) = ''/opt/res/targets/mock''"
  using
    resources_dir_resolution [of "[''QEC_RESOURCES'' \<mapsto> ''/opt/res'']" "''/opt/res''"
      "''/usr/share/qec''" "\<lambda>t. t" "''mock''" None "''/opt/res''"]
    resources_dir_resolution [of Map.empty "''/opt/res''" "''/usr/share/qec''" "\<lambda>t. t"
      "''mock''" None "''/usr/share/qec''"]
  by (simp add: getResourcesDir_def anon_getResourcesDir_def Let_def path_append_def
      path_append1_def)

end
